theory Spec2Isabelle
  imports Complex_Main "HOL-Library.Extended_Nat" "HOL-Library.Sublist"
begin

unbundle bit_operations_syntax

section \<open>JavaScript strings and numbers\<close>

text \<open>
  A JavaScript string is a sequence of UTF-16 code units; a code unit is a natural number
  below 65536. \<open>js\<close> turns a literal of the source into its code units.
\<close>

type_synonym jsstring = "nat list"

definition js :: "string \<Rightarrow> jsstring" where
  "js s = map of_char s"

text \<open>
  The code units that the regular expression class \<open>\s\<close>, \<open>String.prototype.trim\<close> and
  \<open>parseInt\<close> treat as white space (WhiteSpace and LineTerminator of ECMAScript).
\<close>

definition isWhiteSpace :: "nat \<Rightarrow> bool" where
  "isWhiteSpace c \<longleftrightarrow>
     c \<in> set [9, 10, 11, 12, 13, 32, 160, 5760, 8232, 8233, 8239, 8287, 12288, 65279]
     \<or> (8192 \<le> c \<and> c \<le> 8202)"

text \<open>The line terminators, which the regular expression \<open>.\<close> does not match.\<close>

definition isLineTerminator :: "nat \<Rightarrow> bool" where
  "isLineTerminator c \<longleftrightarrow> c \<in> set [10, 13, 8232, 8233]"

definition trim :: "jsstring \<Rightarrow> jsstring" where
  "trim s = rev (dropWhile isWhiteSpace (rev (dropWhile isWhiteSpace s)))"

text \<open>\<open>s.split(sep)\<close> for a separator of one code unit: never the empty array.\<close>

fun js_split :: "nat \<Rightarrow> jsstring \<Rightarrow> jsstring list" where
  "js_split sep [] = [[]]"
| "js_split sep (c # cs) =
     (if c = sep then [] # js_split sep cs
      else (case js_split sep cs of
              [] \<Rightarrow> [[c]]
            | t # ts \<Rightarrow> (c # t) # ts))"

text \<open>\<open>s.includes(sub)\<close>: \<open>sub\<close> occurs in \<open>s\<close> as a contiguous run.\<close>

definition js_includes :: "jsstring \<Rightarrow> jsstring \<Rightarrow> bool" where
  "js_includes s sub = sublist sub s"

text \<open>
  Numbers are IEEE doubles. The numbers that the solver parses, adds and increments are
  integers, NaN or an infinity. On integers, an arithmetic result is the exact result
  rounded by \<open>fl\<close> to the nearest value with a 53-bit significand, ties to the even
  significand; up to \<open>2 ^ 53\<close> in magnitude \<open>fl\<close> changes nothing.
\<close>

fun bitLength :: "nat \<Rightarrow> nat" where
  "bitLength n = (if n = 0 then 0 else Suc (bitLength (n div 2)))"

declare bitLength.simps [simp del]

definition flNat :: "nat \<Rightarrow> nat" where
  "flNat n =
     (if bitLength n \<le> 53 then n
      else let e = bitLength n - 53;
               q = n div 2 ^ e;
               r = n mod 2 ^ e;
               half = 2 ^ (e - 1)
           in (if r > half \<or> (r = half \<and> odd q) then q + 1 else q) * 2 ^ e)"

definition fl :: "int \<Rightarrow> int" where
  "fl v = (if v < 0 then - int (flNat (nat (- v))) else int (flNat (nat v)))"

text \<open>
  A \<open>number\<close> with an integral value, NaN or an infinity. \<open>toNumber\<close> is the double for
  an exact integer: the rounded value, or an infinity when that reaches \<open>2 ^ 1024\<close>.
\<close>

datatype number = NaN | Val int | PosInfinity | NegInfinity

definition overflowThreshold :: int where
  "overflowThreshold = 2 ^ 1024"

definition toNumber :: "int \<Rightarrow> number" where
  "toNumber v =
     (if overflowThreshold \<le> fl v then PosInfinity
      else if fl v \<le> - overflowThreshold then NegInfinity
      else Val (fl v))"

text \<open>\<open>a + b\<close> on numbers.\<close>

fun numberAdd :: "number \<Rightarrow> number \<Rightarrow> number" where
  "numberAdd (Val a) (Val b) = toNumber (a + b)"
| "numberAdd NaN b = NaN"
| "numberAdd a NaN = NaN"
| "numberAdd PosInfinity NegInfinity = NaN"
| "numberAdd NegInfinity PosInfinity = NaN"
| "numberAdd PosInfinity b = PosInfinity"
| "numberAdd a PosInfinity = PosInfinity"
| "numberAdd NegInfinity b = NegInfinity"
| "numberAdd a NegInfinity = NegInfinity"

text \<open>
  A product of doubles that need not be integral is the exact real product rounded by
  \<open>flReal\<close>: every double is a multiple \<open>m * 2 ^ e / 2 ^ 1074\<close> of the smallest
  subnormal with \<open>m < 2 ^ 53\<close>, so a non-negative real is scaled by \<open>2 ^ 1074\<close>, the
  bits beyond the leading 53 are rounded off to the nearest, ties to the even
  significand (\<open>roundHalfEven\<close>), and the result is scaled back. Overflow to infinity is
  left out of \<open>flReal\<close>: it is applied to products below \<open>2 ^ 21\<close> only.
\<close>

definition roundHalfEven :: "real \<Rightarrow> int" where
  "roundHalfEven y =
     (if y - real_of_int \<lfloor>y\<rfloor> < 1 / 2 then \<lfloor>y\<rfloor>
      else if 1 / 2 < y - real_of_int \<lfloor>y\<rfloor> then \<lfloor>y\<rfloor> + 1
      else if even \<lfloor>y\<rfloor> then \<lfloor>y\<rfloor> else \<lfloor>y\<rfloor> + 1)"

definition subnormalScale :: real where
  "subnormalScale = 2 ^ 1074"

definition flScaled :: "real \<Rightarrow> nat \<Rightarrow> real" where
  "flScaled y e = real_of_int (roundHalfEven (y / 2 ^ e)) * 2 ^ e / subnormalScale"

definition flPos :: "real \<Rightarrow> real" where
  "flPos x =
     flScaled (x * subnormalScale) (bitLength (nat \<lfloor>x * subnormalScale\<rfloor>) - 53)"

definition flReal :: "real \<Rightarrow> real" where
  "flReal x = (if x < 0 then - flPos (- x) else flPos x)"

text \<open>The value of a digit in radix notation; 36 for a code unit that is no digit.\<close>

definition digitVal :: "nat \<Rightarrow> nat" where
  "digitVal c =
     (if 48 \<le> c \<and> c \<le> 57 then c - 48
      else if 97 \<le> c \<and> c \<le> 122 then c - 87
      else if 65 \<le> c \<and> c \<le> 90 then c - 55
      else 36)"

definition radixValue :: "nat \<Rightarrow> jsstring \<Rightarrow> nat" where
  "radixValue R Z = foldl (\<lambda>acc c. acc * R + digitVal c) 0 Z"

text \<open>
  \<open>parseInt(string, radix)\<close> of ECMAScript, step by step; radix 0 stands for a call
  without radix. Leading white space is skipped (\<open>parseInt\<close>), a sign is read
  (\<open>parseSign\<close>), \<open>0x\<close> or \<open>0X\<close> is stripped when the radix is 16 or absent
  (\<open>parsePrefix\<close>), and the longest prefix of digits of the radix is the value, as a
  double; no digit gives NaN (\<open>parseDigits\<close>). ECMAScript lets an implementation
  replace the decimal digits after the 20th by zeros; the model keeps them, which makes
  no difference for values up to \<open>2 ^ 53\<close>.
\<close>

definition parseDigits :: "int \<Rightarrow> nat \<Rightarrow> jsstring \<Rightarrow> number" where
  "parseDigits sign R S =
     (case takeWhile (\<lambda>c. digitVal c < R) S of
        [] \<Rightarrow> NaN
      | z # Z \<Rightarrow> toNumber (sign * int (radixValue R (z # Z))))"

fun parsePrefix :: "int \<Rightarrow> jsstring \<Rightarrow> nat \<Rightarrow> number" where
  "parsePrefix sign (a # b # S) radix =
     (if (radix = 0 \<or> radix = 16) \<and> a = 48 \<and> (b = 120 \<or> b = 88) then parseDigits sign 16 S
      else parseDigits sign (if radix = 0 then 10 else radix) (a # b # S))"
| "parsePrefix sign S radix = parseDigits sign (if radix = 0 then 10 else radix) S"

fun parseSign :: "jsstring \<Rightarrow> nat \<Rightarrow> number" where
  "parseSign [] radix = parsePrefix 1 [] radix"
| "parseSign (c # S) radix =
     (if c = 45 then parsePrefix (- 1) S radix
      else if c = 43 then parsePrefix 1 S radix
      else parsePrefix 1 (c # S) radix)"

definition parseInt :: "jsstring \<Rightarrow> nat \<Rightarrow> number" where
  "parseInt string radix =
     (if radix \<noteq> 0 \<and> (radix < 2 \<or> 36 < radix) then NaN
      else parseSign (dropWhile isWhiteSpace string) radix)"

text \<open>
  \<open>String.fromCharCode(n)\<close>: one code unit, \<open>n\<close> modulo \<open>2 ^ 16\<close>, 0 for NaN and the
  infinities.
\<close>

definition fromCharCode :: "number \<Rightarrow> nat" where
  "fromCharCode n = (case n of Val v \<Rightarrow> nat (v mod 65536) | _ \<Rightarrow> 0)"

text \<open>The conversion to a signed 32-bit integer that \<open>^\<close> applies to its operands.\<close>

definition toInt32 :: "number \<Rightarrow> int" where
  "toInt32 n =
     (case n of Val v \<Rightarrow> (v + 2147483648) mod 4294967296 - 2147483648 | _ \<Rightarrow> 0)"

text \<open>
  \<open>n.toString()\<close>. \<open>numToString\<close> prints an integer in decimal, which is what
  \<open>toString\<close> does for magnitudes up to \<open>2 ^ 53\<close>; above that \<open>toString\<close> prints the
  shortest digits that read back as the same double and, from \<open>10 ^ 21\<close>, exponent
  notation, and the model does not follow it there.
\<close>

function digits10 :: "nat \<Rightarrow> jsstring" where
  "digits10 n = (if n < 10 then [48 + n] else digits10 (n div 10) @ [48 + n mod 10])"
  by pat_completeness auto
termination
  by (relation "measure id") auto

declare digits10.simps [simp del]

definition numToString :: "int \<Rightarrow> jsstring" where
  "numToString v = (if v < 0 then 45 # digits10 (nat (- v)) else digits10 (nat v))"

fun toString :: "number \<Rightarrow> jsstring" where
  "toString NaN = js ''NaN''"
| "toString (Val v) = numToString v"
| "toString PosInfinity = js ''Infinity''"
| "toString NegInfinity = js ''-Infinity''"

section \<open>The puzzle and the result\<close>

text \<open>
  Of \<open>CryptoPuzzle\<close> the solver reads \<open>type\<close>, \<open>challenge\<close>, \<open>solution\<close> and \<open>bits\<close>;
  \<open>None\<close> is an absent optional field. \<open>bits\<close> is a bit width, a count of bits: the
  model takes it from the natural numbers, as the puzzles of the catalogue have it.
  \<open>SolverResult\<close> is modelled without \<open>timeMs\<close>, which is read off the wall clock.
  \<open>attempts\<close> is an extended natural number because \<open>Math.pow\<close> overflows to infinity.
\<close>

record CryptoPuzzle =
  type :: jsstring
  challenge :: jsstring
  solution :: "jsstring option"
  bits :: "nat option"

record SolverResult =
  success :: bool
  solution :: "jsstring option"
  attempts :: enat
  "method" :: jsstring

section \<open>Codecs\<close>

text \<open>
  \<open>atob\<close> is the platform's forgiving Base64 decoder (HTML standard): ASCII white space is
  removed, up to two \<open>=\<close> are dropped from an input whose length is a multiple of 4,
  a length of 1 modulo 4 or a code unit outside the alphabet throws (\<open>None\<close>), and
  the bits left over by the last group are discarded.
\<close>

definition isAsciiWhitespace :: "nat \<Rightarrow> bool" where
  "isAsciiWhitespace c \<longleftrightarrow> c \<in> set [9, 10, 12, 13, 32]"

definition b64Val :: "nat \<Rightarrow> nat option" where
  "b64Val c =
     (if 65 \<le> c \<and> c \<le> 90 then Some (c - 65)
      else if 97 \<le> c \<and> c \<le> 122 then Some (c - 71)
      else if 48 \<le> c \<and> c \<le> 57 then Some (c + 4)
      else if c = 43 then Some 62
      else if c = 47 then Some 63
      else None)"

fun b64Bytes :: "nat list \<Rightarrow> jsstring" where
  "b64Bytes (a # b # c # d # rest) =
     [a * 4 + b div 16, (b mod 16) * 16 + c div 4, (c mod 4) * 64 + d] @ b64Bytes rest"
| "b64Bytes [a, b, c] = [a * 4 + b div 16, (b mod 16) * 16 + c div 4]"
| "b64Bytes [a, b] = [a * 4 + b div 16]"
| "b64Bytes [a] = []"
| "b64Bytes [] = []"

definition stripPadding :: "jsstring \<Rightarrow> jsstring" where
  "stripPadding d =
     (if length d mod 4 \<noteq> 0 then d
      else if 2 \<le> length d \<and> drop (length d - 2) d = [61, 61] then take (length d - 2) d
      else if 1 \<le> length d \<and> drop (length d - 1) d = [61] then take (length d - 1) d
      else d)"

definition atob :: "jsstring \<Rightarrow> jsstring option" where
  "atob input =
     (let d = stripPadding (filter (\<lambda>c. \<not> isAsciiWhitespace c) input)
      in if length d mod 4 = 1 then None
         else if list_ex (\<lambda>c. b64Val c = None) d then None
         else Some (b64Bytes (map (\<lambda>c. case b64Val c of None \<Rightarrow> 0 | Some v \<Rightarrow> v) d)))"

definition decodeBase64 :: "jsstring \<Rightarrow> jsstring" where
  "decodeBase64 input = (case atob input of None \<Rightarrow> [] | Some s \<Rightarrow> s)"

text \<open>
  \<open>hexToAscii\<close>: the loop takes \<open>substr(i, 2)\<close> for \<open>i = 0, 2, 4, ...\<close>. Nothing in the
  body throws, so the \<open>catch\<close> branch is never taken.
\<close>

fun hexToAscii_loop :: "jsstring \<Rightarrow> jsstring \<Rightarrow> jsstring" where
  "hexToAscii_loop [] result = result"
| "hexToAscii_loop [a] result = result @ [fromCharCode (parseInt [a] 16)]"
| "hexToAscii_loop (a # b # rest) result =
     hexToAscii_loop rest (result @ [fromCharCode (parseInt [a, b] 16)])"

definition hexToAscii :: "jsstring \<Rightarrow> jsstring" where
  "hexToAscii hex =
     (let cleanHex = filter (\<lambda>c. \<not> isWhiteSpace c) hex
      in hexToAscii_loop cleanHex [])"

definition isLetter :: "nat \<Rightarrow> bool" where
  "isLetter c \<longleftrightarrow> (97 \<le> c \<and> c \<le> 122) \<or> (65 \<le> c \<and> c \<le> 90)"

definition rot13Char :: "nat \<Rightarrow> nat" where
  "rot13Char code =
     (let base = (if code \<ge> 65 \<and> code \<le> 90 then 65 else 97)
      in ((code - base + 13) mod 26) + base)"

definition decodeROT13 :: "jsstring \<Rightarrow> jsstring" where
  "decodeROT13 input = map (\<lambda>c. if isLetter c then rot13Char c else c) input"

definition binaryToAscii :: "jsstring \<Rightarrow> jsstring" where
  "binaryToAscii binary =
     (let bytes = js_split 32 binary
      in map (\<lambda>byte. fromCharCode (parseInt byte 2)) bytes)"

text \<open>
  \<open>hexInput.match(/.{1,2}/g) || []\<close>: greedy runs of one or two code units that are not
  line terminators, from left to right.
\<close>

fun matchPairs :: "jsstring \<Rightarrow> jsstring list" where
  "matchPairs [] = []"
| "matchPairs [a] = (if isLineTerminator a then [] else [[a]])"
| "matchPairs (a # b # rest) =
     (if isLineTerminator a then matchPairs (b # rest)
      else if isLineTerminator b then [a] # matchPairs rest
      else [a, b] # matchPairs rest)"

fun decodeXOR_loop :: "nat list \<Rightarrow> nat \<Rightarrow> jsstring list \<Rightarrow> jsstring \<Rightarrow> jsstring" where
  "decodeXOR_loop keyBytes i [] result = result"
| "decodeXOR_loop keyBytes i (chunk # rest) result =
     (let inputByte = parseInt chunk 16;
          keyByte = (if keyBytes = [] then 0 else int (keyBytes ! (i mod length keyBytes)))
      in decodeXOR_loop keyBytes (i + 1) rest
           (result @ [fromCharCode (Val (toInt32 inputByte XOR keyByte))]))"

definition decodeXOR :: "jsstring \<Rightarrow> jsstring \<Rightarrow> jsstring" where
  "decodeXOR hexInput key =
     (let input = matchPairs hexInput;
          keyBytes = key
      in decodeXOR_loop keyBytes 0 input [])"

section \<open>Sequences\<close>

text \<open>
  \<open>sequence.split(',').map(s => parseInt(s.trim())).filter(n => !isNaN(n))\<close>: an
  infinity is kept.
\<close>

definition parseNumbers :: "jsstring \<Rightarrow> number list" where
  "parseNumbers sequence =
     filter (\<lambda>n. n \<noteq> NaN) (map (\<lambda>s. parseInt (trim s) 0) (js_split 44 sequence))"

definition solveFibonacci :: "jsstring \<Rightarrow> jsstring" where
  "solveFibonacci sequence =
     (let numbers = parseNumbers sequence
      in if length numbers < 2 then []
         else let n1 = numbers ! (length numbers - 2);
                  n2 = numbers ! (length numbers - 1)
              in toString (numberAdd n1 n2))"

text \<open>
  \<open>isPrime\<close> and \<open>getNextPrime\<close> on finite numbers; what they do on an infinity is
  written out in \<open>solvePrimeSequence\<close>. The loop of \<open>isPrime\<close> runs while
  \<open>i <= Math.sqrt(n)\<close>, which for integers is \<open>i * i \<le> n\<close>.
\<close>

function isPrime_loop :: "int \<Rightarrow> int \<Rightarrow> bool" where
  "isPrime_loop n i =
     (if i * i \<le> n then (if n mod i = 0 then False else isPrime_loop n (i + 1)) else True)"
  by pat_completeness auto
termination
proof (relation "measure (\<lambda>(n, i). nat (n + 1 - i))")
  show "wf (measure (\<lambda>(n, i). nat (n + 1 - i)))" by simp
next
  fix n i :: int
  assume le: "i * i \<le> n"
  have "i \<le> i * i"
    by (cases "i \<le> 0") (simp_all add: mult_nonneg_nonpos2 order_trans [OF _ zero_le_square] self_le_power [of i 2, unfolded power2_eq_square])
  with le have "i \<le> n" by simp
  then show "((n, i + 1), (n, i)) \<in> measure (\<lambda>(n, i). nat (n + 1 - i))" by simp
qed

declare isPrime_loop.simps [simp del]

definition isPrime :: "int \<Rightarrow> bool" where
  "isPrime n = (if n < 2 then False else isPrime_loop n 2)"

text \<open>
  \<open>getNextPrime\<close>: a \<open>while\<close> loop with no bound, so a partial function; \<open>None\<close> is
  the loop that never ends. \<open>candidate++\<close> is an addition of doubles.
\<close>

partial_function (option) getNextPrime_loop :: "int \<Rightarrow> int option" where
  "getNextPrime_loop candidate =
     (if isPrime candidate then Some candidate
      else getNextPrime_loop (fl (candidate + 1)))"

declare getNextPrime_loop.simps [code]

definition getNextPrime :: "int \<Rightarrow> int option" where
  "getNextPrime current = getNextPrime_loop (fl (current + 1))"

text \<open>
  \<open>solvePrimeSequence\<close>; \<open>None\<close> when \<open>getNextPrime\<close> does not return. On
  \<open>Infinity\<close> the loop of \<open>isPrime\<close> never ends (\<open>i <= Infinity\<close> holds for ever), and
  on \<open>-Infinity\<close> the candidate stays \<open>-Infinity\<close>, which is not prime. \<open>isPrime(NaN)\<close> is
  true, so NaN would come back as it is; the filter lets no NaN through.
\<close>

definition solvePrimeSequence :: "jsstring \<Rightarrow> jsstring option" where
  "solvePrimeSequence sequence =
     (let numbers = parseNumbers sequence
      in if length numbers = 0 then Some []
         else let lastPrime = numbers ! (length numbers - 1)
              in (case lastPrime of
                    Val n \<Rightarrow> map_option numToString (getNextPrime n)
                  | NaN \<Rightarrow> Some (toString NaN)
                  | PosInfinity \<Rightarrow> None
                  | NegInfinity \<Rightarrow> None))"

section \<open>Strategies\<close>

text \<open>
  \<open>solveCipherPuzzle\<close>: the \<open>for\<close> loop over the five decoders, each a name and a thunk.
  The decoders catch their own exceptions, so the \<open>catch\<close> of the loop is never
  taken. \<open>accepted\<close> is the test
  \<open>result && result.length > 0 && /^[\x20-\x7E]+$/.test(result)\<close>.
\<close>

definition accepted :: "jsstring \<Rightarrow> bool" where
  "accepted result \<longleftrightarrow>
     result \<noteq> [] \<and> length result > 0 \<and> list_all (\<lambda>c. 32 \<le> c \<and> c \<le> 126) result"

definition decoders :: "jsstring \<Rightarrow> (jsstring \<times> (unit \<Rightarrow> jsstring)) list" where
  "decoders c =
     [(js ''Base64'', \<lambda>_. decodeBase64 c),
      (js ''Hex to ASCII'', \<lambda>_. hexToAscii c),
      (js ''ROT13'', \<lambda>_. decodeROT13 c),
      (js ''Binary to ASCII'', \<lambda>_. binaryToAscii c),
      (js ''XOR with KEY'', \<lambda>_. decodeXOR c (js ''KEY''))]"

fun cipher_loop ::
  "(jsstring \<times> (unit \<Rightarrow> jsstring)) list \<Rightarrow> jsstring \<times> jsstring \<times> nat
     \<Rightarrow> jsstring \<times> jsstring \<times> nat" where
  "cipher_loop [] (sol, meth, n) = (sol, meth, n)"
| "cipher_loop (decoder # rest) (sol, meth, n) =
     (let n = n + 1;
          result = snd decoder ()
      in if accepted result then (result, fst decoder, n)
         else cipher_loop rest (sol, meth, n))"

definition solveCipherPuzzle :: "CryptoPuzzle \<Rightarrow> SolverResult" where
  "solveCipherPuzzle puzzle =
     (case cipher_loop (decoders (challenge puzzle)) ([], [], 0) of
        (sol, meth, n) \<Rightarrow>
          \<lparr>success = length sol > 0, solution = Some sol,
           attempts = enat n, method = meth\<rparr>)"

text \<open>
  \<open>solvePatternPuzzle\<close>; \<open>None\<close> when the search for the next prime does not return.
  \<open>isBinaryPattern\<close> is the test \<open>/^[01\s]+$/\<close>.
\<close>

definition isBinaryPattern :: "jsstring \<Rightarrow> bool" where
  "isBinaryPattern s \<longleftrightarrow> s \<noteq> [] \<and> list_all (\<lambda>c. c = 48 \<or> c = 49 \<or> isWhiteSpace c) s"

definition patternResult :: "jsstring \<Rightarrow> jsstring \<Rightarrow> nat \<Rightarrow> SolverResult" where
  "patternResult sol meth n =
     \<lparr>success = length sol > 0, solution = Some sol,
      attempts = enat n, method = meth\<rparr>"

definition solvePatternPuzzle :: "CryptoPuzzle \<Rightarrow> SolverResult option" where
  "solvePatternPuzzle puzzle =
     (let c = challenge puzzle
      in if js_includes c (js ''1, 1, 2, 3, 5, 8'') then
           Some (patternResult (solveFibonacci c) (js ''Fibonacci sequence detection'') 1)
         else if js_includes c (js ''2, 3, 5, 7, 11'') then
           map_option (\<lambda>sol. patternResult sol (js ''Prime number sequence detection'') 1)
             (solvePrimeSequence c)
         else if isBinaryPattern c then
           Some (patternResult (binaryToAscii c) (js ''Binary to ASCII conversion'') 1)
         else Some (patternResult [] [] 0))"

definition commonInputs :: "jsstring list" where
  "commonInputs =
     [js [], js ''foo'', js ''bar'', js ''test'', js ''password'', js ''1'', js ''2'', js ''3'',
      js ''bitcoin'', js ''satoshi'', js ''hello'', js ''world'']"

fun hash_loop :: "jsstring list \<Rightarrow> jsstring option \<Rightarrow> nat \<Rightarrow> SolverResult" where
  "hash_loop [] target n =
     \<lparr>success = False, solution = None, attempts = enat n,
      method = js ''Dictionary attack attempted''\<rparr>"
| "hash_loop (input # rest) target n =
     (let n = n + 1
      in if target \<noteq> None \<and> Some input = target then
           \<lparr>success = True, solution = Some input, attempts = enat n,
            method = js ''Dictionary attack with common inputs''\<rparr>
         else hash_loop rest target n)"

definition solveHashPuzzle :: "CryptoPuzzle \<Rightarrow> SolverResult" where
  "solveHashPuzzle puzzle = hash_loop commonInputs (CryptoPuzzle.solution puzzle) 0"

text \<open>
  \<open>Math.pow(2, bits)\<close> is exact up to the largest finite power of two, \<open>2 ^ 1023\<close>, and
  infinity above. \<open>solveBitcoinPuzzle\<close> takes the value \<open>rnd\<close> of \<open>Math.random()\<close>,
  \<open>0 \<le> rnd < 1\<close>. The two products of \<open>rnd * maxAttempts * 0.7\<close> are products of
  doubles, each rounded by \<open>flReal\<close>, and \<open>0.7\<close> is the double nearest to \<open>7 / 10\<close>.
\<close>

definition pow2 :: "nat \<Rightarrow> enat" where
  "pow2 b = (if b \<le> 1023 then enat (2 ^ b) else \<infinity>)"

definition solveBitcoinPuzzle :: "real \<Rightarrow> CryptoPuzzle \<Rightarrow> SolverResult" where
  "solveBitcoinPuzzle rnd puzzle =
     (let b = (case bits puzzle of None \<Rightarrow> 0 | Some w \<Rightarrow> w);
          maxAttempts = pow2 b
      in if b > 20 then
           \<lparr>success = False, solution = None, attempts = maxAttempts,
            method = js ''Brute force (2^'' @ numToString (int b)
                     @ js '' keys) - computationally infeasible''\<rparr>
         else
           let n = nat \<lfloor>flReal (flReal (rnd * real (the_enat maxAttempts)) * flReal (7 / 10))\<rfloor>
                   + 1
           in \<lparr>success = b \<le> 15, solution = CryptoPuzzle.solution puzzle,
               attempts = enat n,
               method = js ''Brute force key search (2^'' @ numToString (int b) @ js '' = ''
                        @ numToString (int (the_enat maxAttempts)) @ js '' possible keys)''\<rparr>)"

text \<open>
  \<open>solvePuzzleWithAI\<close>: the \<open>switch\<close> on \<open>puzzle.type\<close>, a string at run time. The delay
  before it is left out. \<open>None\<close> is a promise that is never resolved.
\<close>

definition solvePuzzleWithAI :: "real \<Rightarrow> CryptoPuzzle \<Rightarrow> SolverResult option" where
  "solvePuzzleWithAI rnd puzzle =
     (if type puzzle = js ''cipher-decode'' then Some (solveCipherPuzzle puzzle)
      else if type puzzle = js ''pattern-analysis'' then solvePatternPuzzle puzzle
      else if type puzzle = js ''hash-preimage'' then Some (solveHashPuzzle puzzle)
      else if type puzzle = js ''bitcoin-address'' then Some (solveBitcoinPuzzle rnd puzzle)
      else if type puzzle = js ''private-key-recovery'' then Some (solveBitcoinPuzzle rnd puzzle)
      else Some \<lparr>success = False, solution = None, attempts = 0,
                 method = js ''Unknown puzzle type''\<rparr>)"

section \<open>Reference definitions\<close>

text \<open>
  What the specification calls a valid hex digit pair and the byte it denotes:
  \<open>hexBytes_spec\<close> maps each pair of hex digits to its character.
\<close>

definition isHexDigit :: "nat \<Rightarrow> bool" where
  "isHexDigit c \<longleftrightarrow> (48 \<le> c \<and> c \<le> 57) \<or> (97 \<le> c \<and> c \<le> 102) \<or> (65 \<le> c \<and> c \<le> 70)"

definition hexDigit_spec :: "nat \<Rightarrow> nat" where
  "hexDigit_spec c =
     (if 48 \<le> c \<and> c \<le> 57 then c - 48 else if 97 \<le> c \<and> c \<le> 102 then c - 87 else c - 55)"

fun hexBytes_spec :: "jsstring \<Rightarrow> jsstring" where
  "hexBytes_spec (a # b # rest) = (16 * hexDigit_spec a + hexDigit_spec b) # hexBytes_spec rest"
| "hexBytes_spec [a] = []"
| "hexBytes_spec [] = []"

text \<open>
  The character for any chunk of one or two characters that are not white space:
  the byte of a pair of hex digits; the first digit alone when only the first character
  is a hex digit, but U+0000 for \<open>0x\<close> and \<open>0X\<close>; after a sign, the digit that follows,
  negated modulo \<open>2 ^ 16\<close> after \<open>-\<close>; U+0000 for every other chunk. \<open>pairs_spec\<close>
  cuts a text into chunks of two characters, with a last chunk of one character when
  the length is odd.
\<close>

fun hexChunk_spec :: "jsstring \<Rightarrow> nat" where
  "hexChunk_spec [a, b] =
     (if isHexDigit a \<and> isHexDigit b then 16 * hexDigit_spec a + hexDigit_spec b
      else if isHexDigit a then (if a = 48 \<and> (b = 120 \<or> b = 88) then 0 else hexDigit_spec a)
      else if a = 43 \<and> isHexDigit b then hexDigit_spec b
      else if a = 45 \<and> isHexDigit b then (65536 - hexDigit_spec b) mod 65536
      else 0)"
| "hexChunk_spec [a] = (if isHexDigit a then hexDigit_spec a else 0)"
| "hexChunk_spec chunk = 0"

fun pairs_spec :: "jsstring \<Rightarrow> jsstring list" where
  "pairs_spec (a # b # rest) = [a, b] # pairs_spec rest"
| "pairs_spec [a] = [[a]]"
| "pairs_spec [] = []"






section \<open>Numbers in the exact range\<close>

lemma bitLength_le: "n < 2 ^ k \<Longrightarrow> bitLength n \<le> k"
proof (induction k arbitrary: n)
  case 0
  then show ?case by (simp add: bitLength.simps)
next
  case (Suc k)
  then have "n div 2 < 2 ^ k" by simp
  then have "bitLength (n div 2) \<le> k" by (rule Suc.IH)
  then show ?case by (subst bitLength.simps) simp
qed

lemma flNat_exact: "n \<le> 2 ^ 53 \<Longrightarrow> flNat n = n"
proof (cases "n = 2 ^ 53")
  case True
  have "bitLength (2 ^ 53) = 54" by (simp add: bitLength.simps)
  then show ?thesis using True by (simp add: flNat_def Let_def)
next
  case False
  assume "n \<le> 2 ^ 53"
  with False have "n < 2 ^ 53" by simp
  then have "bitLength n \<le> 53" by (rule bitLength_le)
  then show ?thesis by (simp add: flNat_def)
qed

lemma fl_exact: "\<bar>v\<bar> \<le> 2 ^ 53 \<Longrightarrow> fl v = v"
  by (auto simp: fl_def flNat_exact nat_le_iff)

lemma exact_below_overflow: "2 ^ 53 < overflowThreshold"
  by (simp add: overflowThreshold_def)

lemma toNumber_exact:
  assumes "\<bar>v\<bar> \<le> 2 ^ 53"
  shows "toNumber v = Val v"
proof -
  have "v < overflowThreshold" "- overflowThreshold < v"
    using assms exact_below_overflow by linarith+
  then show ?thesis
    using assms by (simp add: toNumber_def fl_exact)
qed

section \<open>Rounding of real products\<close>

lemma subnormalScale_pos: "0 < subnormalScale"
  by (simp add: subnormalScale_def)

lemma bitLength_ge: "2 ^ k \<le> n \<Longrightarrow> k < bitLength n"
proof (induction k arbitrary: n)
  case 0
  then show ?case by (subst bitLength.simps) auto
next
  case (Suc k)
  then have "2 ^ k \<le> n div 2" by simp
  then have "k < bitLength (n div 2)" by (rule Suc.IH)
  moreover have "0 < (2::nat) ^ Suc k" by simp
  with Suc.prems have "n \<noteq> 0" by linarith
  ultimately show ?case by (subst bitLength.simps) simp
qed

lemma bitLength_eq: "2 ^ k \<le> n \<Longrightarrow> n < 2 ^ Suc k \<Longrightarrow> bitLength n = Suc k"
  using bitLength_ge [of k n] bitLength_le [of n "Suc k"] by simp

lemma flPos_at:
  assumes "2 ^ k \<le> x * subnormalScale" and "x * subnormalScale < 2 ^ Suc k"
  shows "flPos x = flScaled (x * subnormalScale) (Suc k - 53)"
proof -
  have "(2::int) ^ k \<le> \<lfloor>x * subnormalScale\<rfloor>"
    using assms(1) by (simp add: le_floor_iff)
  then have lo: "2 ^ k \<le> nat \<lfloor>x * subnormalScale\<rfloor>"
    by (simp add: le_nat_iff)
  have "\<lfloor>x * subnormalScale\<rfloor> < (2::int) ^ Suc k"
    using assms(2) by (simp add: floor_less_iff)
  then have hi: "nat \<lfloor>x * subnormalScale\<rfloor> < 2 ^ Suc k"
    by (cases "0 \<le> \<lfloor>x * subnormalScale\<rfloor>") (simp_all add: nat_less_iff)
  from lo hi have "bitLength (nat \<lfloor>x * subnormalScale\<rfloor>) = Suc k"
    by (rule bitLength_eq)
  then show ?thesis by (simp add: flPos_def)
qed

lemma roundHalfEven_le: "y \<le> real_of_int n \<Longrightarrow> roundHalfEven y \<le> n"
proof -
  assume le: "y \<le> real_of_int n"
  then have fl: "\<lfloor>y\<rfloor> \<le> n" by (simp add: floor_le_iff)
  show ?thesis
  proof (cases "\<lfloor>y\<rfloor> = n")
    case True
    with le have "y - real_of_int \<lfloor>y\<rfloor> \<le> 0" by simp
    then show ?thesis using True by (simp add: roundHalfEven_def)
  next
    case False
    with fl have "\<lfloor>y\<rfloor> + 1 \<le> n" by simp
    with fl show ?thesis by (simp add: roundHalfEven_def)
  qed
qed

lemma roundHalfEven_nonneg: "0 \<le> y \<Longrightarrow> 0 \<le> roundHalfEven y"
  by (simp add: roundHalfEven_def)

lemma flPos_nonneg: "0 \<le> x \<Longrightarrow> 0 \<le> flPos x"
  using subnormalScale_pos by (simp add: flPos_def flScaled_def roundHalfEven_nonneg)

lemma flPos_le:
  assumes "0 \<le> x" and "x \<le> real M * 2 ^ j / subnormalScale" and "M < 2 ^ 53"
  shows "flPos x \<le> real M * 2 ^ j / subnormalScale"
proof -
  define y where "y = x * subnormalScale"
  define e where "e = bitLength (nat \<lfloor>y\<rfloor>) - 53"
  have y: "y \<le> real M * 2 ^ j"
    using assms(2) subnormalScale_pos by (simp add: y_def pos_le_divide_eq)
  then have "\<lfloor>y\<rfloor> \<le> int M * 2 ^ j"
    by (simp add: floor_le_iff)
  then have "nat \<lfloor>y\<rfloor> \<le> M * 2 ^ j"
    by (simp add: nat_le_iff)
  also have "\<dots> < 2 ^ 53 * 2 ^ j"
    using assms(3) by simp
  finally have "nat \<lfloor>y\<rfloor> < 2 ^ (53 + j)"
    by (simp add: power_add)
  then have "bitLength (nat \<lfloor>y\<rfloor>) \<le> 53 + j"
    by (rule bitLength_le)
  then have ej: "e \<le> j" by (simp add: e_def)
  then have split: "(2::real) ^ j = 2 ^ (j - e) * 2 ^ e"
    by (simp flip: power_add)
  have "y / 2 ^ e \<le> real M * 2 ^ (j - e)"
    using y by (simp add: split pos_divide_le_eq mult.assoc)
  then have "y / 2 ^ e \<le> real_of_int (int M * 2 ^ (j - e))" by simp
  then have "roundHalfEven (y / 2 ^ e) \<le> int M * 2 ^ (j - e)"
    by (rule roundHalfEven_le)
  then have "real_of_int (roundHalfEven (y / 2 ^ e)) \<le> real_of_int (int M * 2 ^ (j - e))"
    by (simp only: of_int_le_iff)
  then have "real_of_int (roundHalfEven (y / 2 ^ e)) \<le> real M * 2 ^ (j - e)"
    by simp
  then have "real_of_int (roundHalfEven (y / 2 ^ e)) * 2 ^ e \<le> real M * 2 ^ (j - e) * 2 ^ e"
    by (intro mult_right_mono) auto
  then have "real_of_int (roundHalfEven (y / 2 ^ e)) * 2 ^ e \<le> real M * 2 ^ j"
    by (simp add: split mult.assoc)
  then show ?thesis
    using subnormalScale_pos
    by (simp add: flPos_def flScaled_def y_def [symmetric] e_def [symmetric] divide_right_mono)
qed

lemma flReal_seven_tenths: "flReal (7 / 10) = 3152519739159347 / 4503599627370496"
proof -
  have "flPos (7 / 10) = flScaled (7 / 10 * subnormalScale) (Suc 1073 - 53)"
    by (rule flPos_at) (simp_all add: subnormalScale_def)
  then show ?thesis
    by (simp add: flReal_def flScaled_def roundHalfEven_def subnormalScale_def)
qed


section \<open>The hex codec\<close>

lemma isHexDigit_digitVal: "isHexDigit c \<Longrightarrow> digitVal c = hexDigit_spec c \<and> digitVal c < 16"
  by (auto simp: isHexDigit_def digitVal_def hexDigit_spec_def)

lemma not_isHexDigit_digitVal: "\<not> isHexDigit c \<Longrightarrow> \<not> digitVal c < 16"
  by (auto simp: isHexDigit_def digitVal_def)

lemma isHexDigit_plain: "isHexDigit c \<Longrightarrow> c \<noteq> 43 \<and> c \<noteq> 45 \<and> c \<noteq> 120 \<and> c \<noteq> 88"
  by (auto simp: isHexDigit_def)

lemma fromCharCode_small: "d < 65536 \<Longrightarrow> fromCharCode (Val (int d)) = d"
  by (simp add: fromCharCode_def nat_mod_distrib)

lemma parseDigits_none:
  "S = [] \<or> \<not> digitVal (hd S) < R \<Longrightarrow> parseDigits sign R S = NaN"
  by (cases S) (auto simp: parseDigits_def)

lemma parseDigits_one:
  assumes "digitVal a < 16" and "S = [] \<or> \<not> digitVal (hd S) < 16" and "sign = 1 \<or> sign = - 1"
  shows "parseDigits sign 16 (a # S) = Val (sign * int (digitVal a))"
proof -
  have "takeWhile (\<lambda>c. digitVal c < 16) (a # S) = [a]"
    using assms(1,2) by (cases S) auto
  moreover have "\<bar>sign * int (digitVal a)\<bar> \<le> 2 ^ 53"
    using assms(1,3) by auto
  ultimately show ?thesis
    by (simp add: parseDigits_def radixValue_def toNumber_exact)
qed

lemma parseDigits_two:
  assumes "digitVal a < 16" and "digitVal b < 16"
  shows "parseDigits 1 16 [a, b] = Val (int (16 * digitVal a + digitVal b))"
proof -
  have "\<bar>int (digitVal a * 16 + digitVal b)\<bar> \<le> 2 ^ 53"
    using assms by simp
  then have "toNumber (int (digitVal a * 16 + digitVal b)) = Val (int (digitVal a * 16 + digitVal b))"
    by (rule toNumber_exact)
  then show ?thesis
    using assms by (simp add: parseDigits_def radixValue_def mult.commute)
qed

lemma hexChunk_pair:
  assumes "\<not> isWhiteSpace a"
  shows "fromCharCode (parseInt [a, b] 16) = hexChunk_spec [a, b]"
proof (cases "isHexDigit a")
  case True
  note a = isHexDigit_digitVal [OF True] isHexDigit_plain [OF True]
  show ?thesis
  proof (cases "isHexDigit b")
    case b: True
    have "parseInt [a, b] 16 = Val (int (16 * digitVal a + digitVal b))"
      using assms a isHexDigit_plain [OF b] isHexDigit_digitVal [OF b]
      by (simp add: parseInt_def parseDigits_two)
    moreover have "16 * digitVal a + digitVal b < 65536"
      using a isHexDigit_digitVal [OF b] by simp
    ultimately have "fromCharCode (parseInt [a, b] 16) = 16 * digitVal a + digitVal b"
      by (simp only: fromCharCode_small)
    then show ?thesis
      using True b a isHexDigit_digitVal [OF b] by simp
  next
    case b: False
    show ?thesis
    proof (cases "a = 48 \<and> (b = 120 \<or> b = 88)")
      case x: True
      then have "parseInt [a, b] 16 = NaN"
        using assms by (auto simp: parseInt_def parseDigits_def)
      then show ?thesis using True b x by (simp add: fromCharCode_def)
    next
      case x: False
      have "parseDigits 1 16 [a, b] = Val (1 * int (digitVal a))"
        using a not_isHexDigit_digitVal [OF b] by (intro parseDigits_one) auto
      then have "parseInt [a, b] 16 = Val (int (digitVal a))"
        using assms a x by (auto simp: parseInt_def)
      then show ?thesis
        using True b x a by (auto simp: fromCharCode_small)
    qed
  qed
next
  case False
  note na = not_isHexDigit_digitVal [OF False]
  show ?thesis
  proof (cases "a = 43 \<or> a = 45")
    case sign: True
    have pre: "parseInt [a, b] 16 = parseDigits (if a = 45 then - 1 else 1) 16 [b]"
      using assms sign by (auto simp: parseInt_def)
    show ?thesis
    proof (cases "isHexDigit b")
      case b: True
      have "parseDigits (if a = 45 then - 1 else 1) 16 [b]
              = Val ((if a = 45 then - 1 else 1) * int (digitVal b))"
        using isHexDigit_digitVal [OF b] by (intro parseDigits_one) auto
      with pre have "parseInt [a, b] 16 = Val ((if a = 45 then - 1 else 1) * int (digitVal b))"
        by simp
      moreover have "nat (- int (hexDigit_spec b) mod 65536) = (65536 - hexDigit_spec b) mod 65536"
        using isHexDigit_digitVal [OF b]
        by (cases "hexDigit_spec b = 0") (simp_all add: zmod_zminus1_eq_if nat_diff_distrib)
      ultimately show ?thesis
        using False sign b isHexDigit_digitVal [OF b]
        by (auto simp: fromCharCode_def nat_mod_distrib)
    next
      case b: False
      have "parseDigits (if a = 45 then - 1 else 1) 16 [b] = NaN"
        using not_isHexDigit_digitVal [OF b] by (intro parseDigits_none) simp
      with pre show ?thesis using False sign b by (auto simp: fromCharCode_def)
    qed
  next
    case sign: False
    have "a \<noteq> 48" using False by (auto simp: isHexDigit_def)
    then have "parseInt [a, b] 16 = parseDigits 1 16 [a, b]"
      using assms sign by (auto simp: parseInt_def)
    also have "\<dots> = NaN"
      using na by (intro parseDigits_none) simp
    finally show ?thesis using False sign by (auto simp: fromCharCode_def)
  qed
qed

lemma hexChunk_single:
  assumes "\<not> isWhiteSpace a"
  shows "fromCharCode (parseInt [a] 16) = hexChunk_spec [a]"
proof (cases "isHexDigit a")
  case True
  note a = isHexDigit_digitVal [OF True] isHexDigit_plain [OF True]
  have "parseDigits 1 16 [a] = Val (1 * int (digitVal a))"
    using a by (intro parseDigits_one) auto
  then have "parseInt [a] 16 = Val (int (digitVal a))"
    using assms a by (simp add: parseInt_def)
  then show ?thesis using True a by (simp add: fromCharCode_small)
next
  case False
  have "parseDigits 1 16 [a] = NaN"
    using not_isHexDigit_digitVal [OF False] by (intro parseDigits_none) simp
  moreover have "parseDigits s 16 [] = NaN" for s
    by (simp add: parseDigits_def)
  ultimately have "parseInt [a] 16 = NaN"
    using assms by (simp add: parseInt_def)
  then show ?thesis using False by (simp add: fromCharCode_def)
qed

lemma hexToAscii_loop_chunks:
  "list_all (\<lambda>c. \<not> isWhiteSpace c) cs \<Longrightarrow>
     hexToAscii_loop cs result = result @ map hexChunk_spec (pairs_spec cs)"
  by (induction cs result rule: hexToAscii_loop.induct)
     (simp_all add: hexChunk_pair hexChunk_single)

lemma pairs_spec_valid:
  "even (length cs) \<Longrightarrow> list_all isHexDigit cs \<Longrightarrow>
     map hexChunk_spec (pairs_spec cs) = hexBytes_spec cs"
  by (induction cs rule: pairs_spec.induct) simp_all

lemma length_pairs_spec: "length (pairs_spec cs) = (length cs + 1) div 2"
  by (induction cs rule: pairs_spec.induct) simp_all

text \<open>
  C8, as amended. \<open>hexToAscii\<close> strips white space and never fails. It cuts the rest into
  chunks of two characters, with a last chunk of one character when the length is odd,
  and returns one character for each chunk: the byte of the pair when both characters
  are hex digits; the value of the first digit alone when only the first character is a
  hex digit, but U+0000 for \<open>0x\<close> and \<open>0X\<close>; for a chunk that starts with \<open>+\<close> or \<open>-\<close>,
  the value of a hex digit that follows, negated modulo \<open>2 ^ 16\<close> after \<open>-\<close>; and U+0000
  for every other chunk. So when the length is even and every character is a hex digit,
  the result is the string that maps each pair to its byte.
\<close>

theorem C8_hexToAscii_total:
  "hexToAscii hex = map hexChunk_spec (pairs_spec (filter (\<lambda>c. \<not> isWhiteSpace c) hex))
   \<and> length (hexToAscii hex) = (length (filter (\<lambda>c. \<not> isWhiteSpace c) hex) + 1) div 2
   \<and> (even (length (filter (\<lambda>c. \<not> isWhiteSpace c) hex))
        \<and> list_all isHexDigit (filter (\<lambda>c. \<not> isWhiteSpace c) hex)
      \<longrightarrow> hexToAscii hex = hexBytes_spec (filter (\<lambda>c. \<not> isWhiteSpace c) hex))"
proof -
  have "list_all (\<lambda>c. \<not> isWhiteSpace c) (filter (\<lambda>c. \<not> isWhiteSpace c) hex)"
    by (simp add: list_all_iff)
  then have "hexToAscii hex = map hexChunk_spec (pairs_spec (filter (\<lambda>c. \<not> isWhiteSpace c) hex))"
    by (simp add: hexToAscii_def hexToAscii_loop_chunks)
  then show ?thesis
    by (simp add: length_pairs_spec pairs_spec_valid)
qed

theorem C8_hexToAscii_total_witness:
  "even (length (filter (\<lambda>c. \<not> isWhiteSpace c) (js ''48 65 6c 6c 6f'')))
   \<and> list_all isHexDigit (filter (\<lambda>c. \<not> isWhiteSpace c) (js ''48 65 6c 6c 6f''))
   \<and> length (hexToAscii (js ''48 65 6c 6c 6f'')) = 5
   \<and> hexToAscii (js ''48 65 6c 6c 6f'') = js ''Hello''
   \<and> hexToAscii (js ''-1+f4g0x'') = [65535, 15, 4, 0]"
  using C8_hexToAscii_total [of "js ''48 65 6c 6c 6f''"] C8_hexToAscii_total [of "js ''-1+f4g0x''"]
  by (simp add: js_def isWhiteSpace_def isHexDigit_def hexDigit_spec_def)

text \<open>
  The claim as stated fails: an odd number of digits and a pair that is no hex number
  both give a non-empty string, not the failure.
\<close>

theorem C8_malformed_counterexample:
  "odd (length (js ''abc'')) \<and> \<not> list_ex isWhiteSpace (js ''abc'')
   \<and> hexToAscii (js ''abc'') = [171, 12]
   \<and> \<not> list_all isHexDigit (js ''zz'') \<and> \<not> list_ex isWhiteSpace (js ''zz'')
   \<and> hexToAscii (js ''zz'') = [0]"
  by (simp add: hexToAscii_def js_def isWhiteSpace_def isHexDigit_def parseInt_def parseDigits_def
      fromCharCode_def digitVal_def radixValue_def toNumber_exact)

section \<open>The decode cascade\<close>

lemma cipher_loop_first_accepted:
  "cipher_loop ds (s, m, n) =
     (let k = length (takeWhile (\<lambda>d. \<not> accepted (snd d ())) ds)
      in if k < length ds then (snd (ds ! k) (), fst (ds ! k), n + Suc k)
         else (s, m, n + length ds))"
  by (induction ds arbitrary: n) (auto simp: Let_def)

lemma accepted_nonempty: "accepted r \<Longrightarrow> r \<noteq> []"
  by (simp add: accepted_def)

text \<open>
  C2, as amended. \<open>solveCipherPuzzle\<close> tries Base64, Hex to ASCII, ROT13, Binary to ASCII
  and XOR with the key \<open>KEY\<close> in this order and stops at the first output that is
  non-empty and printable ASCII throughout: success, that output as solution, the codec's
  name as method and the number of codecs tried as attempts. When no output is accepted
  it fails with 5 attempts, the empty string as solution and the empty string as method.
\<close>

theorem C2_decode_cascade:
  "solveCipherPuzzle puzzle =
     (if accepted (decodeBase64 (challenge puzzle)) then
        \<lparr>success = True, solution = Some (decodeBase64 (challenge puzzle)),
         attempts = enat 1, method = js ''Base64''\<rparr>
      else if accepted (hexToAscii (challenge puzzle)) then
        \<lparr>success = True, solution = Some (hexToAscii (challenge puzzle)),
         attempts = enat 2, method = js ''Hex to ASCII''\<rparr>
      else if accepted (decodeROT13 (challenge puzzle)) then
        \<lparr>success = True, solution = Some (decodeROT13 (challenge puzzle)),
         attempts = enat 3, method = js ''ROT13''\<rparr>
      else if accepted (binaryToAscii (challenge puzzle)) then
        \<lparr>success = True, solution = Some (binaryToAscii (challenge puzzle)),
         attempts = enat 4, method = js ''Binary to ASCII''\<rparr>
      else if accepted (decodeXOR (challenge puzzle) (js ''KEY'')) then
        \<lparr>success = True, solution = Some (decodeXOR (challenge puzzle) (js ''KEY'')),
         attempts = enat 5, method = js ''XOR with KEY''\<rparr>
      else
        \<lparr>success = False, solution = Some [], attempts = enat 5, method = []\<rparr>)"
  by (auto simp: solveCipherPuzzle_def decoders_def cipher_loop_first_accepted dest: accepted_nonempty)

lemma decodeBase64_fragment:
  "decodeBase64 (js ''UHJpdmF0ZUtleUZyYWdtZW50'') = js ''PrivateKeyFragment''"
  by (simp add: decodeBase64_def atob_def stripPadding_def js_def isAsciiWhitespace_def b64Val_def)

theorem C2_decode_cascade_witness:
  "solveCipherPuzzle \<lparr>type = js ''cipher-decode'', challenge = js ''UHJpdmF0ZUtleUZyYWdtZW50'',
       solution = Some (js ''PrivateKeyFragment''), bits = None\<rparr> =
     \<lparr>success = True, solution = Some (js ''PrivateKeyFragment''), attempts = enat 1,
      method = js ''Base64''\<rparr>"
  using C2_decode_cascade [of "\<lparr>type = js ''cipher-decode'',
       challenge = js ''UHJpdmF0ZUtleUZyYWdtZW50'',
       solution = Some (js ''PrivateKeyFragment''), bits = None\<rparr>"]
  by (simp add: decodeBase64_fragment) (simp add: accepted_def js_def)

text \<open>
  The claim as stated fails on the empty challenge: every codec is rejected and the
  method of the failure is the empty string, which describes nothing.
\<close>

theorem C2_exhausted_counterexample:
  "solveCipherPuzzle \<lparr>type = js ''cipher-decode'', challenge = [], solution = None, bits = None\<rparr>
     = \<lparr>success = False, solution = Some [], attempts = enat 5, method = []\<rparr>"
  by (simp add: solveCipherPuzzle_def decoders_def accepted_def decodeBase64_def atob_def
      stripPadding_def hexToAscii_def decodeROT13_def binaryToAscii_def decodeXOR_def
      parseInt_def parseDigits_def fromCharCode_def)

lemma rot13Char_letter: "isLetter c \<Longrightarrow> 32 \<le> rot13Char c \<and> rot13Char c \<le> 126"
  unfolding isLetter_def rot13Char_def Let_def
  by auto

lemma accepted_decodeROT13: "accepted c \<Longrightarrow> accepted (decodeROT13 c)"
  by (auto simp: accepted_def decodeROT13_def list_all_iff dest: rot13Char_letter)

text \<open>
  C10. For every challenge that is non-empty and printable ASCII throughout,
  \<open>solveCipherPuzzle\<close> succeeds within 3 attempts, with Base64, Hex to ASCII or ROT13:
  ROT13 keeps the length and maps printable ASCII to printable ASCII, so the Binary
  and XOR codecs are not reached.
\<close>

theorem C10_printable_challenge:
  assumes "challenge puzzle \<noteq> []" and "list_all (\<lambda>c. 32 \<le> c \<and> c \<le> 126) (challenge puzzle)"
  shows "success (solveCipherPuzzle puzzle)
         \<and> attempts (solveCipherPuzzle puzzle) \<le> enat 3
         \<and> method (solveCipherPuzzle puzzle) \<in> {js ''Base64'', js ''Hex to ASCII'', js ''ROT13''}"
proof -
  have "accepted (challenge puzzle)"
    using assms by (simp add: accepted_def)
  then have rot: "accepted (decodeROT13 (challenge puzzle))"
    by (rule accepted_decodeROT13)
  show ?thesis
    using rot by (auto simp: solveCipherPuzzle_def decoders_def Let_def dest: accepted_nonempty)
qed

theorem C10_printable_challenge_witness:
  "challenge \<lparr>type = js ''cipher-decode'', challenge = js ''GUVF VF N FRPERG ZRFFNTR'',
       solution = None, bits = None\<rparr> \<noteq> []
   \<and> list_all (\<lambda>c. 32 \<le> c \<and> c \<le> 126)
        (challenge \<lparr>type = js ''cipher-decode'', challenge = js ''GUVF VF N FRPERG ZRFFNTR'',
           solution = None, bits = None\<rparr>)
   \<and> success (solveCipherPuzzle \<lparr>type = js ''cipher-decode'',
         challenge = js ''GUVF VF N FRPERG ZRFFNTR'', solution = None, bits = None\<rparr>)
   \<and> attempts (solveCipherPuzzle \<lparr>type = js ''cipher-decode'',
         challenge = js ''GUVF VF N FRPERG ZRFFNTR'', solution = None, bits = None\<rparr>) \<le> enat 3"
  using C10_printable_challenge [of "\<lparr>type = js ''cipher-decode'',
       challenge = js ''GUVF VF N FRPERG ZRFFNTR'', solution = None, bits = None\<rparr>"]
  by (simp add: js_def)

section \<open>The prime search\<close>






text \<open>
  At \<open>2 ^ 53\<close> the loop stops moving: \<open>2 ^ 53\<close> is even, and \<open>2 ^ 53 + 1\<close> rounds back
  to \<open>2 ^ 53\<close>.
\<close>

lemma fl_above_exact: "fl 9007199254740993 = 9007199254740992"
  by (simp add: fl_def flNat_def Let_def bitLength.simps)

lemma isPrime_2_53: "\<not> isPrime 9007199254740992"
  by (simp add: isPrime_def isPrime_loop.simps [of _ 2])

lemma getNextPrime_loop_stuck:
  assumes "getNextPrime_loop c = Some y"
  shows "c \<noteq> 9007199254740992"
proof (rule getNextPrime_loop.raw_induct [where P = "\<lambda>c y. c \<noteq> 9007199254740992", OF _ assms])
  fix loop :: "int \<Rightarrow> int option" and c y :: int
  assume IH: "\<And>x y. loop x = Some y \<Longrightarrow> x \<noteq> 9007199254740992"
  assume body: "(if isPrime c then Some c else loop (fl (c + 1))) = Some y"
  show "c \<noteq> 9007199254740992"
  proof
    assume "c = 9007199254740992"
    with body have "loop 9007199254740992 = Some y"
      by (simp add: isPrime_2_53 fl_above_exact)
    then have "(9007199254740992 :: int) \<noteq> 9007199254740992"
      by (rule IH)
    then show False by simp
  qed
qed

lemma getNextPrime_loop_2_53: "getNextPrime_loop 9007199254740992 = None"
proof (cases "getNextPrime_loop 9007199254740992")
  case (Some y)
  then show ?thesis using getNextPrime_loop_stuck by blast
qed simp

lemma getNextPrime_max_safe: "getNextPrime 9007199254740991 = None"
  by (simp add: getNextPrime_def fl_exact getNextPrime_loop_2_53)

section \<open>Sequence inference\<close>
























text \<open>The examples of the specification, evaluated.\<close>

lemmas parse_eval = parseNumbers_def js_def trim_def isWhiteSpace_def
  parseInt_def parseDigits_def digitVal_def radixValue_def toNumber_exact

lemma includes_eval:
  "js_includes (js ''1, 1, 2, 3, 5, 8, 13, 21'') (js ''1, 1, 2, 3, 5, 8'')"
  "\<not> js_includes (js ''2, 3, 5, 7, 11, 13, 17, 19'') (js ''1, 1, 2, 3, 5, 8'')"
  "js_includes (js ''2, 3, 5, 7, 11, 13, 17, 19'') (js ''2, 3, 5, 7, 11'')"
  by (simp_all add: js_includes_def js_def sublist_code)

lemma parseNumbers_fibonacci_example:
  "parseNumbers (js ''1, 1, 2, 3, 5, 8, 13, 21'') =
     [Val 1, Val 1, Val 2, Val 3, Val 5, Val 8, Val 13, Val 21]"
  by (simp add: parse_eval)



lemma numToString_examples: "numToString 34 = js ''34''" "numToString 23 = js ''23''"
  by (simp_all add: numToString_def digits10.simps js_def)



lemma fibonacci_example:
  "solvePatternPuzzle \<lparr>type = js ''pattern-analysis'', challenge = js ''1, 1, 2, 3, 5, 8, 13, 21'',
         solution = Some (js ''34''), bits = None\<rparr> =
       Some \<lparr>success = True, solution = Some (js ''34''), attempts = enat 1,
             method = js ''Fibonacci sequence detection''\<rparr>"
  by (simp add: solvePatternPuzzle_def patternResult_def solveFibonacci_def includes_eval
      parseNumbers_fibonacci_example toNumber_exact numToString_examples)
     (simp add: js_def)








text \<open>
  An integer of 310 digits is beyond the double range: it is an infinity, and the sum
  of \<open>Infinity\<close> and \<open>-Infinity\<close> is NaN.
\<close>

lemma bitLength_310_digits: "bitLength (10 ^ 309) = 1027"
  by (rule bitLength_eq [of 1026, simplified]) simp_all

lemma toNumber_310_digits:
  "toNumber (10 ^ 309) = PosInfinity" "toNumber (- (10 ^ 309)) = NegInfinity"
  by (simp_all add: toNumber_def fl_def flNat_def bitLength_310_digits [simplified]
        overflowThreshold_def Let_def)

lemma sum_of_infinities:
  "toString (numberAdd (toNumber (10 ^ 309)) (toNumber (- (10 ^ 309)))) = js ''NaN''"
  by (simp add: toNumber_310_digits [simplified])

lemma includes_max_safe:
  "\<not> js_includes (js ''2, 3, 5, 7, 11, 9007199254740991'') (js ''1, 1, 2, 3, 5, 8'')"
  "js_includes (js ''2, 3, 5, 7, 11, 9007199254740991'') (js ''2, 3, 5, 7, 11'')"
  by (simp_all add: js_includes_def js_def sublist_code)

lemma parseNumbers_max_safe:
  "parseNumbers (js ''2, 3, 5, 7, 11, 9007199254740991'') =
     [Val 2, Val 3, Val 5, Val 7, Val 11, Val 9007199254740991]"
  by (simp add: parse_eval)

text \<open>
  C9. The search for the next prime does not terminate for every integer: from
  9007199254740991 the candidate becomes \<open>2 ^ 53\<close>, which is not prime, and
  \<open>candidate++\<close> leaves it at \<open>2 ^ 53\<close>. So \<open>getNextPrime\<close>, the sequence strategy
  and the dispatcher do not return on the challenge
  \<open>2, 3, 5, 7, 11, 9007199254740991\<close>.
\<close>

theorem C9_prime_search_diverges:
  "getNextPrime 9007199254740991 = None
   \<and> solvePatternPuzzle \<lparr>type = js ''pattern-analysis'',
         challenge = js ''2, 3, 5, 7, 11, 9007199254740991'', solution = None, bits = None\<rparr> = None
   \<and> solvePuzzleWithAI rnd \<lparr>type = js ''pattern-analysis'',
         challenge = js ''2, 3, 5, 7, 11, 9007199254740991'', solution = None, bits = None\<rparr> = None"
proof -
  have "solvePatternPuzzle \<lparr>type = js ''pattern-analysis'',
         challenge = js ''2, 3, 5, 7, 11, 9007199254740991'', solution = None, bits = None\<rparr> = None"
    by (simp add: solvePatternPuzzle_def solvePrimeSequence_def includes_max_safe
        parseNumbers_max_safe getNextPrime_max_safe)
  moreover have "js ''pattern-analysis'' \<noteq> js ''cipher-decode''"
    by (simp add: js_def)
  ultimately show ?thesis
    by (simp add: solvePuzzleWithAI_def getNextPrime_max_safe)
qed

section \<open>Dictionary search\<close>

lemma hash_loop_search:
  "hash_loop xs (Some target) n =
     (if target \<in> set xs then
        \<lparr>success = True, solution = Some target,
         attempts = enat (n + Suc (length (takeWhile (\<lambda>c. c \<noteq> target) xs))),
         method = js ''Dictionary attack with common inputs''\<rparr>
      else
        \<lparr>success = False, solution = None, attempts = enat (n + length xs),
         method = js ''Dictionary attack attempted''\<rparr>)"
  by (induction xs arbitrary: n) (auto simp: Let_def)

text \<open>
  C6. For every target text, \<open>solveHashPuzzle\<close> goes through the twelve candidates in list
  order, counting one attempt for each; at the first candidate equal to the target it
  stops with success, that candidate as solution and its 1-based position as attempts;
  when no candidate is equal to the target it fails with 12 attempts, the length of the
  list. The position of the first match is one more than the number of candidates before it.
\<close>

theorem C6_dictionary_search:
  assumes "CryptoPuzzle.solution puzzle = Some target"
  shows "solveHashPuzzle puzzle =
     (if target \<in> set commonInputs then
        \<lparr>success = True, solution = Some target,
         attempts = enat (Suc (length (takeWhile (\<lambda>c. c \<noteq> target) commonInputs))),
         method = js ''Dictionary attack with common inputs''\<rparr>
      else
        \<lparr>success = False, solution = None, attempts = enat (length commonInputs),
         method = js ''Dictionary attack attempted''\<rparr>)
     \<and> length commonInputs = 12"
  using assms by (simp add: solveHashPuzzle_def hash_loop_search) (simp add: commonInputs_def)

theorem C6_dictionary_search_witness:
  "CryptoPuzzle.solution \<lparr>type = js ''hash-preimage'', challenge = [], solution = Some (js ''foo''), bits = None\<rparr> = Some (js ''foo'')
   \<and> solveHashPuzzle \<lparr>type = js ''hash-preimage'', challenge = [], solution = Some (js ''foo''), bits = None\<rparr>
     = \<lparr>success = True, solution = Some (js ''foo''), attempts = enat 2,
         method = js ''Dictionary attack with common inputs''\<rparr>"
  using C6_dictionary_search [of "\<lparr>type = js ''hash-preimage'', challenge = [], solution = Some (js ''foo''), bits = None\<rparr>" "js ''foo''"]
  by (simp add: commonInputs_def js_def)

section \<open>The dispatcher\<close>

text \<open>
  C7, as amended. For every puzzle whose type is none of the five tags,
  \<open>solvePuzzleWithAI\<close> returns (it does not throw and it does not hang) the failure with
  0 attempts, no solution and the method \<open>Unknown puzzle type\<close>.
\<close>

theorem C7_unknown_type:
  assumes "type puzzle \<notin> set [js ''cipher-decode'', js ''pattern-analysis'', js ''hash-preimage'',
             js ''bitcoin-address'', js ''private-key-recovery'']"
  shows "solvePuzzleWithAI rnd puzzle =
           Some \<lparr>success = False, solution = None, attempts = 0, method = js ''Unknown puzzle type''\<rparr>"
  using assms by (simp add: solvePuzzleWithAI_def)

theorem C7_unknown_type_witness:
  "type \<lparr>type = js ''lottery'', challenge = [], solution = None, bits = None\<rparr>
     \<notin> set [js ''cipher-decode'', js ''pattern-analysis'', js ''hash-preimage'',
             js ''bitcoin-address'', js ''private-key-recovery'']
   \<and> solvePuzzleWithAI 0 \<lparr>type = js ''lottery'', challenge = [], solution = None, bits = None\<rparr> =
           Some \<lparr>success = False, solution = None, attempts = 0, method = js ''Unknown puzzle type''\<rparr>"
  using C7_unknown_type [of "\<lparr>type = js ''lottery'', challenge = [], solution = None, bits = None\<rparr>" 0]
  by (simp add: js_def)

text \<open>
  The label of the claim as stated, \<open>unrecognized category\<close>, is not the one returned.
\<close>

theorem C7_label_counterexample:
  "solvePuzzleWithAI 0 \<lparr>type = js ''lottery'', challenge = [], solution = None, bits = None\<rparr> =
           Some \<lparr>success = False, solution = None, attempts = 0, method = js ''Unknown puzzle type''\<rparr>
   \<and> js ''Unknown puzzle type'' \<noteq> js ''unrecognized category''"
  by (simp add: solvePuzzleWithAI_def js_def)

section \<open>Bounded keyspace search\<close>

text \<open>
  C4. For every bit width above 20, \<open>solveBitcoinPuzzle\<close> fails at once, whatever the
  random value (which it does not read): no solution, the method that names the
  infeasibility and cites the keyspace as \<open>2^bits\<close>, and \<open>Math.pow(2, bits)\<close> attempts,
  which is exactly \<open>2 ^ bits\<close> for every width up to 1023, so in particular up to 70.
\<close>

theorem C4_infeasible:
  assumes "bits puzzle = Some b" and "20 < b"
  shows "solveBitcoinPuzzle rnd puzzle =
           \<lparr>success = False, solution = None, attempts = pow2 b,
            method = js ''Brute force (2^'' @ numToString (int b)
                     @ js '' keys) - computationally infeasible''\<rparr>
         \<and> (b \<le> 1023 \<longrightarrow> pow2 b = enat (2 ^ b))"
  using assms by (simp add: solveBitcoinPuzzle_def pow2_def)

lemma numToString_66: "numToString 66 = js ''66''"
  by (simp add: numToString_def js_def digits10.simps)

theorem C4_infeasible_witness:
  "bits \<lparr>type = js ''bitcoin-address'', challenge = js ''1BY8GQbnueYofwSuFAT3USAhGjPrkxDdW9'', solution = None, bits = Some 66\<rparr> = Some 66
   \<and> (20::nat) < 66 \<and> (66::nat) \<le> 1023
   \<and> solveBitcoinPuzzle (1 / 2) \<lparr>type = js ''bitcoin-address'', challenge = js ''1BY8GQbnueYofwSuFAT3USAhGjPrkxDdW9'', solution = None, bits = Some 66\<rparr> =
           \<lparr>success = False, solution = None, attempts = enat 73786976294838206464,
            method = js ''Brute force (2^66 keys) - computationally infeasible''\<rparr>"
  using C4_infeasible [of "\<lparr>type = js ''bitcoin-address'', challenge = js ''1BY8GQbnueYofwSuFAT3USAhGjPrkxDdW9'', solution = None, bits = Some 66\<rparr>" 66 "1 / 2"]
  by (simp add: numToString_66) (simp add: js_def)

text \<open>
  The constant \<open>0.7\<close> and a power of two below it are doubles, and rounding to the
  nearest double does not carry a product across a double.
\<close>

lemma scaled_power: "real 1 * 2 ^ (b + 1074) / subnormalScale = 2 ^ b"
  by (simp add: subnormalScale_def power_add)

lemma scaled_seven_tenths:
  "real 3152519739159347 * 2 ^ (b + 1022) / subnormalScale
     = 2 ^ b * (3152519739159347 / 4503599627370496)"
  by (simp add: subnormalScale_def power_add)

lemma attempts_product_bound:
  assumes "0 \<le> rnd" and "rnd < 1"
  shows "flReal (flReal (rnd * 2 ^ b) * flReal (7 / 10)) < 2 ^ b"
proof -
  define x where "x = flPos (rnd * 2 ^ b)"
  have r: "0 \<le> rnd * 2 ^ b" using assms(1) by simp
  then have x0: "0 \<le> x" unfolding x_def by (rule flPos_nonneg)
  have "rnd * 2 ^ b \<le> 1 * 2 ^ b"
    using assms(2) by (intro mult_right_mono) auto
  then have "rnd * 2 ^ b \<le> real 1 * 2 ^ (b + 1074) / subnormalScale"
    by (simp only: scaled_power)
  with r have "x \<le> real 1 * 2 ^ (b + 1074) / subnormalScale"
    unfolding x_def by (rule flPos_le) simp
  then have xb: "x \<le> 2 ^ b" by (simp only: scaled_power)
  define u where "u = flPos (x * (3152519739159347 / 4503599627370496))"
  have p: "0 \<le> x * (3152519739159347 / 4503599627370496)" using x0 by simp
  have "x * (3152519739159347 / 4503599627370496) \<le> 2 ^ b * (3152519739159347 / 4503599627370496)"
    using xb by (intro mult_right_mono) auto
  then have "x * (3152519739159347 / 4503599627370496)
               \<le> real 3152519739159347 * 2 ^ (b + 1022) / subnormalScale"
    by (simp only: scaled_seven_tenths)
  with p have "u \<le> real 3152519739159347 * 2 ^ (b + 1022) / subnormalScale"
    unfolding u_def by (rule flPos_le) simp
  then have "u \<le> 2 ^ b * (3152519739159347 / 4503599627370496)"
    by (simp only: scaled_seven_tenths)
  also have "\<dots> < 2 ^ b * 1"
    by (intro mult_strict_left_mono) auto
  finally have "u < 2 ^ b" by simp
  moreover have fx: "flReal (rnd * 2 ^ b) = x"
    using r by (simp add: flReal_def x_def)
  moreover have fu: "flReal (x * (3152519739159347 / 4503599627370496)) = u"
    using p by (simp add: flReal_def u_def)
  ultimately show ?thesis
    by (simp only: fx flReal_seven_tenths fu)
qed

text \<open>
  C3. For every bit width of at most 20 (an absent width counts as 0) and every random
  value in \<open>[0, 1)\<close>, \<open>solveBitcoinPuzzle\<close> reports success exactly when the width is at
  most 15, and its attempts never exceed the keyspace size \<open>2 ^ bits\<close>.
\<close>

theorem C3_bounded_search:
  assumes "(case bits puzzle of None \<Rightarrow> 0 | Some w \<Rightarrow> w) = b" and "b \<le> 20"
    and "0 \<le> rnd" and "rnd < 1"
  shows "success (solveBitcoinPuzzle rnd puzzle) = (b \<le> 15)
         \<and> attempts (solveBitcoinPuzzle rnd puzzle) \<le> enat (2 ^ b)"
proof -
  have "flReal (flReal (rnd * 2 ^ b) * flReal (7 / 10)) < 2 ^ b"
    using assms(3,4) by (rule attempts_product_bound)
  then have "\<lfloor>flReal (flReal (rnd * 2 ^ b) * flReal (7 / 10))\<rfloor> < 2 ^ b"
    by (simp add: floor_less_iff)
  then have "nat \<lfloor>flReal (flReal (rnd * 2 ^ b) * flReal (7 / 10))\<rfloor> + 1 \<le> 2 ^ b"
    by (simp add: nat_less_iff Suc_le_eq)
  then show ?thesis
    using assms(1,2) by (simp add: solveBitcoinPuzzle_def pow2_def Let_def)
qed

text \<open>
  At the random value \<open>45 / 64\<close> and 7 bits the first product is 90, and the second,
  \<open>90 * 3152519739159347 / 4503599627370496 = 141863388262170615 / 2251799813685248\<close>,
  is rounded below 63, so there are 63 attempts.
\<close>

lemma flReal_90: "flReal 90 = 90"
proof -
  have "flPos 90 = flScaled (90 * subnormalScale) (Suc 1080 - 53)"
    by (rule flPos_at) (simp_all add: subnormalScale_def)
  then show ?thesis
    by (simp add: flReal_def flScaled_def roundHalfEven_def subnormalScale_def)
qed

lemma flReal_below_63:
  "flReal (141863388262170615 / 2251799813685248) = 8866461766385663 / 140737488355328"
proof -
  have "flPos (141863388262170615 / 2251799813685248)
          = flScaled (141863388262170615 / 2251799813685248 * subnormalScale) (Suc 1079 - 53)"
    by (rule flPos_at) (simp_all add: subnormalScale_def)
  then show ?thesis
    by (simp add: flReal_def flScaled_def roundHalfEven_def subnormalScale_def)
qed

lemma attempts_example:
  "attempts (solveBitcoinPuzzle (45 / 64)
      \<lparr>type = js ''bitcoin-address'', challenge = [], solution = None, bits = Some 7\<rparr>) = enat 63"
  by (simp add: solveBitcoinPuzzle_def pow2_def flReal_90 flReal_seven_tenths
        flReal_below_63)

theorem C3_bounded_search_witness:
  "(case bits \<lparr>type = js ''bitcoin-address'', challenge = [], solution = None, bits = Some 7\<rparr>
      of None \<Rightarrow> 0 | Some w \<Rightarrow> w) = 7
   \<and> (7::nat) \<le> 20 \<and> (0::real) \<le> 45 / 64 \<and> (45 / 64 :: real) < 1
   \<and> success (solveBitcoinPuzzle (45 / 64)
        \<lparr>type = js ''bitcoin-address'', challenge = [], solution = None, bits = Some 7\<rparr>)
   \<and> attempts (solveBitcoinPuzzle (45 / 64)
        \<lparr>type = js ''bitcoin-address'', challenge = [], solution = None, bits = Some 7\<rparr>) = enat 63
   \<and> enat 63 \<le> enat (2 ^ 7)"
  using C3_bounded_search [of "\<lparr>type = js ''bitcoin-address'', challenge = [], solution = None,
      bits = Some 7\<rparr>" 7 "45 / 64"]
  by (simp add: attempts_example)

text \<open>
  C1. The result of the keyspace search does not keep solution and success together: at
  20 bits with a known solution it fails and still carries the solution, and for the
  10-bit puzzle of the catalogue, which has no known solution, it succeeds without one.
\<close>

theorem C1_keyspace_breaks_invariant:
  "success (solveBitcoinPuzzle rnd \<lparr>type = js ''bitcoin-address'', challenge = js ''1BY8GQbnueYofwSuFAT3USAhGjPrkxDdW9'', solution = Some (js ''863317''), bits = Some 20\<rparr>) = False
   \<and> solution (solveBitcoinPuzzle rnd \<lparr>type = js ''bitcoin-address'', challenge = js ''1BY8GQbnueYofwSuFAT3USAhGjPrkxDdW9'', solution = Some (js ''863317''), bits = Some 20\<rparr>) = Some (js ''863317'')
   \<and> success (solveBitcoinPuzzle rnd \<lparr>type = js ''bitcoin-address'', challenge = js ''16JrGhLx5bcBSA34kew9V6Mufa4aXhFe9X'', solution = None, bits = Some 10\<rparr>) = True
   \<and> solution (solveBitcoinPuzzle rnd \<lparr>type = js ''bitcoin-address'', challenge = js ''16JrGhLx5bcBSA34kew9V6Mufa4aXhFe9X'', solution = None, bits = Some 10\<rparr>) = None"
  by (simp add: solveBitcoinPuzzle_def Let_def)

end
